theory Spec2Isabelle
  imports Complex_Main
begin

section \<open>Supervision core of process.py\<close>

text \<open>
  A shallow embedding of \<^verbatim>\<open>nonebot_plugin_gocqhttp/process/process.py\<close>: the log
  line grammar \<^verbatim>\<open>LOG_REGEX\<close> and the construction of a \<^verbatim>\<open>ProcessLog\<close>, the
  registration of a \<^verbatim>\<open>GoCQProcess\<close> in \<^verbatim>\<open>REGISTERED_PROCESSES\<close>, the restart loop
  \<^verbatim>\<open>daemon_thread_runner\<close> with the single run \<^verbatim>\<open>_daemon_thread_runner\<close>, and the
  methods \<^verbatim>\<open>start\<close>, \<^verbatim>\<open>stop\<close>, \<^verbatim>\<open>status\<close> and \<^verbatim>\<open>listen_log\<close>.

  Strings are lists of 8-bit characters read as code points below 256. On these the
  class \<^verbatim>\<open>\d\<close> of a Python \<^verbatim>\<open>str\<close> pattern is exactly the ten ASCII digits.
  Exceptions are values of the type \<open>exn\<close>; a function that can raise returns
  \<open>exn + 'a\<close> with \<open>Inl\<close> for the exception.
\<close>

datatype exn =
  AttributeError | ValueError | RuntimeError | ValidationError
  | NoSuchProcess | OSError | TimeoutExpired | UnicodeDecodeError | OverflowError

subsection \<open>The log grammar\<close>

text \<open>
  \<^verbatim>\<open>LOG_REGEX\<close> is the sequence: start of string, \<^verbatim>\<open>[\<close>, the group \<^verbatim>\<open>time\<close>
  (\<^verbatim>\<open>\d{4}-\d\d-\d\d \d\d:\d\d:\d\d\<close>), \<^verbatim>\<open>] [\<close>, the group \<^verbatim>\<open>level\<close>
  (\<^verbatim>\<open>[A-Z]+?\<close>), \<^verbatim>\<open>]: \<close>, the group \<^verbatim>\<open>message\<close> (\<^verbatim>\<open>.*\<close>), end of string.
\<close>

definition is_digit :: "char \<Rightarrow> bool" where
  "is_digit c = (c \<in> set ''0123456789'')"

definition is_upper :: "char \<Rightarrow> bool" where
  "is_upper c = (c \<in> set ''ABCDEFGHIJKLMNOPQRSTUVWXYZ'')"

definition newline :: char where
  "newline = CHR 0x0A"

text \<open>One position of the \<^verbatim>\<open>time\<close> group: a digit or a literal character.\<close>

datatype tok = Dig | Lit char

fun matches :: "tok list \<Rightarrow> string \<Rightarrow> bool" where
  "matches [] [] = True"
| "matches (Dig # ps) (c # cs) = (is_digit c \<and> matches ps cs)"
| "matches (Lit a # ps) (c # cs) = (a = c \<and> matches ps cs)"
| "matches _ _ = False"

definition time_pattern :: "tok list" where
  "time_pattern =
     [Dig, Dig, Dig, Dig, Lit (CHR ''-''), Dig, Dig, Lit (CHR ''-''), Dig, Dig, Lit (CHR '' ''),
      Dig, Dig, Lit (CHR '':''), Dig, Dig, Lit (CHR '':''), Dig, Dig]"

text \<open>A literal piece of the pattern: the rest of the string after it, if it is there.\<close>

definition literal :: "string \<Rightarrow> string \<Rightarrow> string option" where
  "literal p s = (if take (length p) s = p then Some (drop (length p) s) else None)"

text \<open>
  \<^verbatim>\<open>(?P<message>.*)$\<close>: the dot matches every character but the newline, and \<^verbatim>\<open>$\<close>
  matches at the end of the string and just before a newline that ends the string.
\<close>

definition message_group :: "string \<Rightarrow> string option" where
  "message_group s =
     (let m = takeWhile (\<lambda>c. c \<noteq> newline) s; r = dropWhile (\<lambda>c. c \<noteq> newline) s
      in if r = [] \<or> r = [newline] then Some m else None)"

text \<open>
  \<^verbatim>\<open>LOG_REGEX.match(output)\<close>: \<open>None\<close> when the line does not match, the groups
  \<^verbatim>\<open>(time, level, message)\<close> when it does. The lazy \<^verbatim>\<open>[A-Z]+?\<close> is followed by
  \<^verbatim>\<open>]\<close>, which is no capital letter, so the only level that can match is the whole
  run of capital letters.
\<close>

definition LOG_REGEX_match :: "string \<Rightarrow> (string \<times> string \<times> string) option" where
  "LOG_REGEX_match s =
     (case literal ''['' s of
        None \<Rightarrow> None
      | Some s1 \<Rightarrow>
          if matches time_pattern (take 19 s1) then
            (case literal ''] ['' (drop 19 s1) of
               None \<Rightarrow> None
             | Some s2 \<Rightarrow>
                 if takeWhile is_upper s2 = [] then None
                 else
                   (case literal '']: '' (dropWhile is_upper s2) of
                      None \<Rightarrow> None
                    | Some s3 \<Rightarrow>
                        (case message_group s3 of
                           None \<Rightarrow> None
                         | Some m \<Rightarrow> Some (take 19 s1, takeWhile is_upper s2, m))))
          else None)"

definition LOG_LEVELS :: "string set" where
  "LOG_LEVELS = {''DEBUG'', ''INFO'', ''WARNING'', ''ERROR'', ''FATAL''}"

subsection \<open>ProcessLog and its validation\<close>

record datetime =
  year :: nat
  month :: nat
  day :: nat
  hour :: nat
  minute :: nat
  second :: nat

record ProcessLog =
  raw :: string
  time :: datetime
  level :: "string option"
  message :: "string option"

definition digit_val :: "char \<Rightarrow> nat" where
  "digit_val c = of_char c - 48"

definition number :: "string \<Rightarrow> nat" where
  "number s = foldl (\<lambda>n c. 10 * n + digit_val c) 0 s"

definition leap_year :: "nat \<Rightarrow> bool" where
  "leap_year y =
     (if y mod 400 = 0 then True else if y mod 100 = 0 then False else y mod 4 = 0)"

definition days_in_month :: "nat \<Rightarrow> nat \<Rightarrow> nat" where
  "days_in_month y m =
     (if m = 2 then (if leap_year y then 29 else 28)
      else if m \<in> {4, 6, 9, 11} then 30 else 31)"

text \<open>
  The field \<^verbatim>\<open>time: datetime\<close> of the pydantic model \<^verbatim>\<open>ProcessLog\<close> is validated
  when the model is constructed: the captured text is read as a date and a time of day and
  a \<^verbatim>\<open>datetime\<close> is built from the six numbers, which fails unless they denote a day of
  the calendar (years from 1) and a time of day. \<open>validate_time\<close> is that validation on a
  text of the shape of the \<^verbatim>\<open>time\<close> group.
\<close>

definition validate_time :: "string \<Rightarrow> datetime option" where
  "validate_time t =
     (let y = number (take 4 t); mo = number (take 2 (drop 5 t)); d = number (take 2 (drop 8 t));
          h = number (take 2 (drop 11 t)); mi = number (take 2 (drop 14 t));
          s = number (take 2 (drop 17 t))
      in if matches time_pattern t \<and> 1 \<le> y \<and> 1 \<le> mo \<and> mo \<le> 12 \<and> 1 \<le> d
            \<and> d \<le> days_in_month y mo \<and> h \<le> 23 \<and> mi \<le> 59 \<and> s \<le> 59
         then Some \<lparr>year = y, month = mo, day = d, hour = h, minute = mi, second = s\<rparr>
         else None)"

text \<open>
  Lines 144 to 149: \<^verbatim>\<open>ProcessLog(raw=output, **log_matched.groupdict())\<close> when the line
  matches, \<^verbatim>\<open>ProcessLog(raw=output)\<close> when it does not. \<open>now\<close> is what
  \<^verbatim>\<open>datetime.now\<close>, the default factory of \<^verbatim>\<open>time\<close>, returns at that moment.
\<close>

definition log_model :: "datetime \<Rightarrow> string \<Rightarrow> exn + ProcessLog" where
  "log_model now output =
     (case LOG_REGEX_match output of
        Some (t, lv, m) \<Rightarrow>
          (case validate_time t of
             None \<Rightarrow> Inl ValidationError
           | Some dt \<Rightarrow> Inr \<lparr>raw = output, time = dt, level = Some lv, message = Some m\<rparr>)
      | None \<Rightarrow> Inr \<lparr>raw = output, time = now, level = None, message = None\<rparr>)"

text \<open>
  The closure \<^verbatim>\<open>process_log\<close> of the constructor, up to the call of the logger: the
  level and the text it logs. \<open>stdout_name\<close> is \<^verbatim>\<open>STDOUT.name\<close>, declared in
  \<^verbatim>\<open>..log\<close>; \<^verbatim>\<open>log.message or log.raw\<close> takes \<^verbatim>\<open>raw\<close> also for an empty message.
\<close>

definition process_log :: "string \<Rightarrow> ProcessLog \<Rightarrow> string \<times> string" where
  "process_log stdout_name lg =
     (let msg = (case message lg of None \<Rightarrow> raw lg | Some m \<Rightarrow> if m = [] then raw lg else m);
          lvl = (case level lg of
                   None \<Rightarrow> stdout_name
                 | Some l \<Rightarrow> if l \<in> LOG_LEVELS then l else stdout_name)
      in (lvl, msg))"

definition clock0 :: datetime where
  "clock0 = \<lparr>year = 2024, month = 1, day = 1, hour = 0, minute = 0, second = 0\<rparr>"

subsection \<open>The supervisor's data\<close>

text \<open>\<^verbatim>\<open>AccountConfig\<close> is declared in \<^verbatim>\<open>..plugin_config\<close>; only \<^verbatim>\<open>uin\<close> is read here.\<close>

record AccountConfig =
  uin :: int

text \<open>
  \<^verbatim>\<open>REGISTERED_PROCESSES\<close>, the module's dictionary from \<^verbatim>\<open>uin\<close> to the registered
  object, an object being named by its reference.
\<close>

type_synonym registry = "int \<rightharpoonup> nat"

text \<open>
  A log listener is compared by identity: the closure \<^verbatim>\<open>process_log\<close> of the constructor,
  or a callback of the caller's.
\<close>

datatype LogListener = Process_log | Callback nat

text \<open>The handle \<^verbatim>\<open>subprocess.Popen\<close>: the child's pid and \<^verbatim>\<open>returncode\<close>.\<close>

record Popen =
  popen_pid :: nat
  returncode :: "int option"

text \<open>
  What the code does to the world outside the object, in order: spawning the worker,
  scheduling the listeners of one record on the event loop
  (\<^verbatim>\<open>asyncio.run_coroutine_threadsafe\<close> for each listener of the set), signalling and
  waiting for the child, the logger's calls of the restart loop, and sleeping.
\<close>

datatype event =
  Spawn nat
  | Schedule "LogListener set" ProcessLog
  | Terminate nat
  | Wait nat real
  | Logger_exception exn
  | Logger_warning int nat int
  | Sleep real

record GoCQProcess =
  account :: AccountConfig
  kill_timeout :: real
  stop_timeout :: real
  max_restarts :: int
  restart_interval :: real
  log_listeners :: "LogListener set"
  log_counter :: nat
  restarted :: nat
  process :: "Popen option"
  daemon_thread_running :: bool
  daemon_thread_started :: bool
  trace :: "event list"

text \<open>
  The behaviour of the world during one run of the worker, that is one call of
  \<^verbatim>\<open>_daemon_thread_runner\<close>: what \<^verbatim>\<open>Popen\<close> does (it raises, or the child has this
  pid), the lines \<^verbatim>\<open>readline\<close> returns before the end of the stream, each with the
  clock's reading when its record is built, an exception of the stream after these lines if
  there is one, what \<^verbatim>\<open>wait\<close> does (\<^verbatim>\<open>TimeoutExpired\<close>, or the exit code), and whether
  another thread called \<^verbatim>\<open>stop\<close> during the run.
\<close>

record worker_run =
  spawn :: "exn + nat"
  stdout_lines :: "(datetime \<times> string) list"
  read_error :: "exn option"
  exit_status :: "exn + int"
  stop_requested :: bool

text \<open>The row of one process in the operating system's table, as \<^verbatim>\<open>psutil\<close> reads it.\<close>

record os_process =
  ps_status :: string
  ps_cpu_percent :: real
  ps_rss :: nat
  ps_vms :: nat
  ps_create_time :: real

record BaseProcessInfo =
  status :: string
  total_logs :: nat
  restarts :: nat

record RunningProcessInfo = BaseProcessInfo +
  pid :: nat
  memory_used :: nat
  swap_used :: nat
  cpu_percent :: real
  start_time :: real

record StoppedProcessInfo = BaseProcessInfo +
  code :: int

datatype ProcessInfo = Running RunningProcessInfo | Stopped StoppedProcessInfo

subsection \<open>The constructor and the directory\<close>

text \<open>
  Reading \<^verbatim>\<open>self.account\<close>: an instance has the attributes assigned to it so far and
  those of its class, and the class \<^verbatim>\<open>GoCQProcess\<close> declares only \<^verbatim>\<open>process\<close>. The
  argument is the value assigned so far, if any.
\<close>

definition getattr_account :: "AccountConfig option \<Rightarrow> exn + AccountConfig" where
  "getattr_account assigned = (case assigned of None \<Rightarrow> Inl AttributeError | Some a \<Rightarrow> Inr a)"

text \<open>Lines 80 to 96: the fields the constructor assigns after the registration.\<close>

definition init_fields ::
  "AccountConfig \<Rightarrow> real \<Rightarrow> real \<Rightarrow> int \<Rightarrow> real \<Rightarrow> bool \<Rightarrow> GoCQProcess" where
  "init_fields acct kt st mr ri print_process_log =
     \<lparr>account = acct, kill_timeout = kt, stop_timeout = st, max_restarts = mr,
      restart_interval = ri,
      log_listeners = (if print_process_log then {Process_log} else {}),
      log_counter = 0, restarted = 0, process = None,
      daemon_thread_running = False, daemon_thread_started = False, trace = []\<rparr>"

text \<open>
  \<^verbatim>\<open>GoCQProcess.__init__\<close> on the directory \<open>REGISTERED\<close>, for the new object \<open>self\<close>.
  Line 76 reads \<^verbatim>\<open>self.account\<close>, which is assigned at line 80 only, so nothing is
  assigned when it is read; the store into the directory comes after that read.
  \<open>running_loop\<close> says whether \<^verbatim>\<open>asyncio.get_running_loop()\<close> finds a loop (line 82).
  The result is the exception or the object's fields, and the directory afterwards.
\<close>

definition init ::
  "registry \<Rightarrow> nat \<Rightarrow> AccountConfig \<Rightarrow> real \<Rightarrow> real \<Rightarrow> int \<Rightarrow> real \<Rightarrow> bool \<Rightarrow> bool
     \<Rightarrow> (exn + GoCQProcess) \<times> registry" where
  "init REGISTERED self acct kt st mr ri print_process_log running_loop =
     (if uin acct \<notin> dom REGISTERED then
        (case getattr_account None of
           Inl e \<Rightarrow> (Inl e, REGISTERED)
         | Inr a \<Rightarrow>
             if running_loop
             then (Inr (init_fields acct kt st mr ri print_process_log),
                   REGISTERED(uin a \<mapsto> self))
             else (Inl RuntimeError, REGISTERED(uin a \<mapsto> self)))
      else (Inl ValueError, REGISTERED))"

text \<open>
  Modelled from the spec: \<^verbatim>\<open>unregister(identity)\<close> of the Supervisor Directory, which
  the source file does not define: the entry of the identity is removed from the
  directory.
\<close>

definition unregister :: "int \<Rightarrow> registry \<Rightarrow> registry" where
  "unregister identity REGISTERED = REGISTERED(identity := None)"

subsection \<open>Listeners, start and stop\<close>

definition listen_log :: "GoCQProcess \<Rightarrow> LogListener \<Rightarrow> LogListener \<times> GoCQProcess" where
  "listen_log self listener =
     (listener, self\<lparr>log_listeners := insert listener (log_listeners self)\<rparr>)"

definition emit :: "event list \<Rightarrow> GoCQProcess \<Rightarrow> GoCQProcess" where
  "emit es self = self\<lparr>trace := trace self @ es\<rparr>"

text \<open>
  \<^verbatim>\<open>start\<close>: the flag is set, then the thread is started, which raises
  \<^verbatim>\<open>RuntimeError\<close> for a thread started before. The configuration files written first
  are the work of \<^verbatim>\<open>.config\<close>. The thread's body is \<open>daemon_thread_runner\<close> below.
\<close>

definition start :: "GoCQProcess \<Rightarrow> exn option \<times> GoCQProcess" where
  "start self =
     (let s = self\<lparr>daemon_thread_running := True\<rparr>
      in if daemon_thread_started s then (Some RuntimeError, s)
         else (None, s\<lparr>daemon_thread_started := True\<rparr>))"

text \<open>\<^verbatim>\<open>stop\<close>: the flag is cleared and a live handle is signalled; the join changes nothing.\<close>

definition stop :: "GoCQProcess \<Rightarrow> GoCQProcess" where
  "stop self =
     (let s = self\<lparr>daemon_thread_running := False\<rparr>
      in case process s of None \<Rightarrow> s | Some h \<Rightarrow> emit [Terminate (popen_pid h)] s)"

subsection \<open>One run of the worker\<close>

text \<open>
  \<^verbatim>\<open>str.strip()\<close> removes the white space at both ends; below 256 the white space
  characters are these twelve.
\<close>

definition is_space :: "char \<Rightarrow> bool" where
  "is_space c = ((of_char c :: nat) \<in> {9, 10, 11, 12, 13, 28, 29, 30, 31, 32, 133, 160})"

definition strip :: "string \<Rightarrow> string" where
  "strip s = rev (dropWhile is_space (rev (dropWhile is_space s)))"

text \<open>
  The loop of lines 135 to 151 over the lines the stream returns: \<^verbatim>\<open>iter(readline, "")\<close>
  ends at the empty string. For each line the counter is incremented, the record is built
  (which can raise) and the listeners are scheduled. The result is the exception that
  ended the loop, if any. The marker of line 137 has characters beyond 255 only, so no
  line of this model contains it, and its message to the logger is left out.
\<close>

fun read_lines :: "(datetime \<times> string) list \<Rightarrow> GoCQProcess \<Rightarrow> exn option \<times> GoCQProcess" where
  "read_lines [] self = (None, self)"
| "read_lines ((now, l) # rest) self =
     (if l = [] then (None, self)
      else
        (let s1 = self\<lparr>log_counter := log_counter self + 1\<rparr>
         in case log_model now (strip l) of
              Inl e \<Rightarrow> (Some e, s1)
            | Inr lg \<Rightarrow> read_lines rest (emit [Schedule (log_listeners s1) lg] s1)))"

text \<open>
  \<^verbatim>\<open>GoCQProcess._daemon_thread_runner\<close>: spawn, read to the end of the stream, then
  terminate and wait when the handle has no return code yet, and return the return code.
  Nothing in this thread polls the handle before line 153. A \<^verbatim>\<open>stop\<close> of another
  thread during the run takes effect where the reading ends: it clears the flag and
  signals the child, which ends the stream, before this thread goes on to line 153.
\<close>

definition GoCQProcess_daemon_thread_runner ::
  "worker_run \<Rightarrow> GoCQProcess \<Rightarrow> (exn + int) \<times> GoCQProcess" where
  "GoCQProcess_daemon_thread_runner r self =
     (case spawn r of
        Inl e \<Rightarrow> (Inl e, if stop_requested r then stop self else self)
      | Inr p \<Rightarrow>
          (let h = \<lparr>popen_pid = p, returncode = None\<rparr>;
               s1 = emit [Spawn p] (self\<lparr>process := Some h\<rparr>)
           in case read_lines (stdout_lines r) s1 of
                (x, s1') \<Rightarrow>
                  (let s2 = (if stop_requested r then stop s1' else s1')
                   in case x of
                        Some e \<Rightarrow> (Inl e, s2)
                      | None \<Rightarrow>
                          (case read_error r of
                             Some e \<Rightarrow> (Inl e, s2)
                           | None \<Rightarrow>
                               (case returncode h of
                                  Some c \<Rightarrow> (Inr c, s2)
                                | None \<Rightarrow>
                                    (let s3 = emit [Terminate p, Wait p (kill_timeout s2)] s2
                                     in case exit_status r of
                                          Inl e \<Rightarrow> (Inl e, s3)
                                        | Inr c \<Rightarrow>
                                            (Inr c,
                                             s3\<lparr>process :=
                                                  Some (h\<lparr>returncode := Some c\<rparr>)\<rparr>)))))))"

subsection \<open>The restart loop\<close>

text \<open>
  \<^verbatim>\<open>time.sleep\<close> raises \<^verbatim>\<open>ValueError\<close> for a negative length and
  \<^verbatim>\<open>OverflowError\<close> for one beyond the range of the interpreter's clock, which counts
  nanoseconds in 64 bits.
\<close>

definition sleep_limit :: real where
  "sleep_limit = 2 ^ 63 / 10 ^ 9"

definition sleep :: "real \<Rightarrow> exn option" where
  "sleep secs =
     (if secs < 0 then Some ValueError
      else if sleep_limit < secs then Some OverflowError
      else None)"

text \<open>
  The body of the loop of \<^verbatim>\<open>daemon_thread_runner\<close> after its two guards, lines 104 to
  117, for the loop variable \<open>i\<close> (\<^verbatim>\<open>restarted\<close> in the source): the run inside
  \<^verbatim>\<open>try\<close>, with \<^verbatim>\<open>code\<close> left at 0 when it raises, the warning, the increment of
  \<^verbatim>\<open>self.restarted\<close> and the sleep, which is outside the \<^verbatim>\<open>try\<close>.
\<close>

definition iteration :: "worker_run \<Rightarrow> nat \<Rightarrow> GoCQProcess \<Rightarrow> exn + GoCQProcess" where
  "iteration r i self =
     (case GoCQProcess_daemon_thread_runner r self of
        (res, s1) \<Rightarrow>
          (let s2 = (case res of
                       Inl e \<Rightarrow> emit [Logger_exception e, Logger_warning 0 i (max_restarts s1)] s1
                     | Inr c \<Rightarrow> emit [Logger_warning c i (max_restarts s1)] s1);
               s3 = s2\<lparr>restarted := restarted s2 + 1\<rparr>
           in case sleep (restart_interval s3) of
                Some e \<Rightarrow> Inl e
              | None \<Rightarrow> Inr (emit [Sleep (restart_interval s3)] s3)))"

text \<open>
  \<^verbatim>\<open>daemon_thread_runner\<close>, the thread's body, from the loop variable \<open>i\<close> on:
  \<^verbatim>\<open>for restarted in count()\<close> with its two guards at the top. \<open>env\<close> gives the
  behaviour of the world during each run. The loop need not end (\<open>max_restarts\<close> is
  negative by default), so the result is an option and \<open>None\<close> is a loop that runs
  forever; \<open>Inl\<close> is an exception that ends the thread.
\<close>

partial_function (option) daemon_thread_runner ::
  "(nat \<Rightarrow> worker_run) \<Rightarrow> nat \<Rightarrow> GoCQProcess \<Rightarrow> (exn + GoCQProcess) option" where
  "daemon_thread_runner env i self =
     (if \<not> daemon_thread_running self then Some (Inr self)
      else if 0 \<le> max_restarts self \<and> max_restarts self \<le> int i then Some (Inr self)
      else
        (case iteration (env i) i self of
           Inl e \<Rightarrow> Some (Inl e)
         | Inr s \<Rightarrow> daemon_thread_runner env (Suc i) s))"

subsection \<open>The status\<close>

text \<open>
  \<^verbatim>\<open>GoCQProcess.status\<close>. \<open>table\<close> is the operating system's process table:
  \<^verbatim>\<open>psutil.Process(pid)\<close> raises \<^verbatim>\<open>NoSuchProcess\<close> for a pid that has no row, and it
  is called before the return code is looked at.
\<close>

definition GoCQProcess_status ::
  "(nat \<rightharpoonup> os_process) \<Rightarrow> GoCQProcess \<Rightarrow> exn + ProcessInfo" where
  "GoCQProcess_status table self =
     (case process self of
        None \<Rightarrow> Inl RuntimeError
      | Some h \<Rightarrow>
          (case table (popen_pid h) of
             None \<Rightarrow> Inl NoSuchProcess
           | Some ps \<Rightarrow>
               (case returncode h of
                  None \<Rightarrow>
                    Inr (Running
                      \<lparr>status = ps_status ps, total_logs = log_counter self,
                       restarts = restarted self, pid = popen_pid h, memory_used = ps_rss ps,
                       swap_used = ps_vms ps, cpu_percent = ps_cpu_percent ps,
                       start_time = ps_create_time ps\<rparr>)
                | Some c \<Rightarrow>
                    Inr (Stopped
                      \<lparr>status = ps_status ps, total_logs = log_counter self,
                       restarts = restarted self, code = c\<rparr>))))"

subsection \<open>Concrete objects and runs\<close>

text \<open>
  An object with the fields the constructor assigns (default timeouts, the console
  listener on) after \<^verbatim>\<open>start\<close>, for a restart budget and a restart interval.
\<close>

definition started :: "int \<Rightarrow> real \<Rightarrow> GoCQProcess" where
  "started mr ri = snd (start (init_fields \<lparr>uin = 10001\<rparr> 5 6 mr ri True))"

text \<open>A worker that prints one line of the grammar and exits with code 0.\<close>

definition ready_run :: worker_run where
  "ready_run =
     \<lparr>spawn = Inr 4321,
      stdout_lines = [(clock0, ''[2024-01-01 00:00:00] [INFO]: ready'' @ [newline])],
      read_error = None, exit_status = Inr 0, stop_requested = False\<rparr>"

text \<open>A worker that prints one line outside the grammar and exits with code 1.\<close>

definition garbage_run :: worker_run where
  "garbage_run =
     \<lparr>spawn = Inr 4321, stdout_lines = [(clock0, ''garbage output'' @ [newline])],
      read_error = None, exit_status = Inr 1, stop_requested = False\<rparr>"

text \<open>The same worker, ended by a \<^verbatim>\<open>stop\<close> of the caller during the run.\<close>

definition stopped_run :: worker_run where
  "stopped_run = garbage_run\<lparr>stop_requested := True\<rparr>"

text \<open>A worker whose only line has the shape of the grammar and the month 13.\<close>

definition bad_date_run :: worker_run where
  "bad_date_run =
     \<lparr>spawn = Inr 4321,
      stdout_lines = [(clock0, ''[2024-13-01 00:00:00] [INFO]: x'' @ [newline])],
      read_error = None, exit_status = Inr 0, stop_requested = False\<rparr>"

text \<open>That worker again and again, each child with a pid of its own.\<close>

definition bad_date_env :: "nat \<Rightarrow> worker_run" where
  "bad_date_env i = bad_date_run\<lparr>spawn := Inr (4321 + i)\<rparr>"

fun is_spawn :: "event \<Rightarrow> bool" where
  "is_spawn (Spawn p) = True"
| "is_spawn e = False"

text \<open>How often the worker was spawned so far.\<close>

definition spawns :: "GoCQProcess \<Rightarrow> nat" where
  "spawns self = length (filter is_spawn (trace self))"

section \<open>Properties\<close>

subsection \<open>The grammar and the records\<close>

lemmas grammar_defs = LOG_REGEX_match_def literal_def time_pattern_def is_digit_def
  is_upper_def message_group_def newline_def

lemmas time_defs = validate_time_def number_def digit_val_def days_in_month_def leap_year_def

lemma matches_length: "matches ps s \<Longrightarrow> length s = length ps"
  by (induction ps s rule: matches.induct) auto

lemma time_length: "matches time_pattern t \<Longrightarrow> length t = 19"
  by (drule matches_length) (simp add: time_pattern_def)

lemma message_group_line: "newline \<notin> set m \<Longrightarrow> message_group m = Some m"
  by (auto simp: message_group_def Let_def)

lemma level_run:
  assumes "list_all is_upper lv"
  shows "takeWhile is_upper (lv @ '']: '' @ m) = lv"
    and "dropWhile is_upper (lv @ '']: '' @ m) = '']: '' @ m"
proof -
  have n: "\<not> is_upper (CHR '']'')" by (simp add: is_upper_def)
  have a: "\<And>x. x \<in> set lv \<Longrightarrow> is_upper x" using assms by (simp add: list_all_iff)
  show "takeWhile is_upper (lv @ '']: '' @ m) = lv"
    using takeWhile_tail [of is_upper "CHR '']''" lv "'': '' @ m"] n a by simp
  show "dropWhile is_upper (lv @ '']: '' @ m) = '']: '' @ m"
    using dropWhile_append2 [of lv is_upper "'']: '' @ m"] n a by simp
qed

text \<open>
  The matcher accepts every line of the grammar
  \<^verbatim>\<open>[YYYY-MM-DD HH:MM:SS] [LEVEL]: message\<close> and captures its three parts.
\<close>

lemma LOG_REGEX_match_grammar:
  assumes "matches time_pattern t" "lv \<noteq> []" "list_all is_upper lv" "newline \<notin> set m"
  shows "LOG_REGEX_match (''['' @ t @ ''] ['' @ lv @ '']: '' @ m) = Some (t, lv, m)"
proof -
  have len: "length t = 19" using assms(1) by (rule time_length)
  have l1: "literal ''['' (''['' @ t @ ''] ['' @ lv @ '']: '' @ m)
              = Some (t @ ''] ['' @ lv @ '']: '' @ m)"
    by (simp add: literal_def)
  have l2: "literal ''] ['' (''] ['' @ lv @ '']: '' @ m) = Some (lv @ '']: '' @ m)"
    by (simp add: literal_def)
  have l3: "literal '']: '' ('']: '' @ m) = Some m"
    by (simp add: literal_def)
  show ?thesis
    unfolding LOG_REGEX_match_def l1
    using assms len l2 l3 level_run [OF assms(3), of m] message_group_line [OF assms(4)]
    by simp
qed

text \<open>Whatever the matcher captures as the level is a non-empty word of capital letters.\<close>

lemma LOG_REGEX_match_level:
  assumes "LOG_REGEX_match s = Some (t, lv, m)"
  shows "lv \<noteq> [] \<and> list_all is_upper lv"
proof -
  from assms obtain s2 where lv: "lv = takeWhile is_upper s2" and ne: "takeWhile is_upper s2 \<noteq> []"
    by (auto simp: LOG_REGEX_match_def split: option.splits if_splits)
  have "list_all is_upper (takeWhile is_upper s2)"
    by (auto simp: list_all_iff dest: set_takeWhileD)
  with lv ne show ?thesis by simp
qed

text \<open>
  What the construction of the record yields where it does not raise. A line that does
  not match gives a record with the line as \<open>raw\<close>, no level, no message and the capture
  time. A line of the grammar \<^verbatim>\<open>[YYYY-MM-DD HH:MM:SS] [LEVEL]: message\<close> whose time
  stamp passes the validation gives a record with the three captured groups.
\<close>

lemma log_model_grammar:
  "(LOG_REGEX_match s = None \<longrightarrow>
      log_model now s = Inr \<lparr>raw = s, time = now, level = None, message = None\<rparr>)
   \<and> (matches time_pattern t \<and> lv \<noteq> [] \<and> list_all is_upper lv \<and> newline \<notin> set m
        \<and> validate_time t = Some dt \<longrightarrow>
      log_model now (''['' @ t @ ''] ['' @ lv @ '']: '' @ m)
        = Inr \<lparr>raw = ''['' @ t @ ''] ['' @ lv @ '']: '' @ m, time = dt,
               level = Some lv, message = Some m\<rparr>)"
proof (intro conjI impI)
  assume "LOG_REGEX_match s = None"
  then show "log_model now s = Inr \<lparr>raw = s, time = now, level = None, message = None\<rparr>"
    by (simp add: log_model_def)
next
  assume h: "matches time_pattern t \<and> lv \<noteq> [] \<and> list_all is_upper lv \<and> newline \<notin> set m
        \<and> validate_time t = Some dt"
  then have "LOG_REGEX_match (''['' @ t @ ''] ['' @ lv @ '']: '' @ m) = Some (t, lv, m)"
    by (intro LOG_REGEX_match_grammar) simp_all
  with h show "log_model now (''['' @ t @ ''] ['' @ lv @ '']: '' @ m)
        = Inr \<lparr>raw = ''['' @ t @ ''] ['' @ lv @ '']: '' @ m, time = dt,
               level = Some lv, message = Some m\<rparr>"
    by (simp add: log_model_def)
qed

text \<open>
  C9, as amended. The level of a record is absent or a non-empty word of the capital
  letters A to Z, whatever the word. The five levels of \<^verbatim>\<open>LOG_LEVELS\<close> are applied only
  where the console listener forwards a record: it logs at the record's level when that is
  one of the five and at the level \<^verbatim>\<open>STDOUT\<close> otherwise, also for a record without a
  level.
\<close>

theorem log_model_level:
  assumes "log_model now s = Inr r"
  shows "(level r = None \<or> (\<exists>lv. level r = Some lv \<and> lv \<noteq> [] \<and> list_all is_upper lv))
         \<and> fst (process_log stdout_name r)
             = (case level r of
                  None \<Rightarrow> stdout_name
                | Some lv \<Rightarrow> if lv \<in> LOG_LEVELS then lv else stdout_name)"
proof
  show "level r = None \<or> (\<exists>lv. level r = Some lv \<and> lv \<noteq> [] \<and> list_all is_upper lv)"
  proof (cases "LOG_REGEX_match s")
    case None
    with assms show ?thesis by (auto simp: log_model_def)
  next
    case (Some g)
    obtain t lv m where g: "g = (t, lv, m)" by (cases g)
    from Some g have "lv \<noteq> [] \<and> list_all is_upper lv"
      by (intro LOG_REGEX_match_level [of s t lv m]) simp
    moreover from assms Some g have "level r = Some lv"
      by (auto simp: log_model_def split: option.splits)
    ultimately show ?thesis by simp
  qed
  show "fst (process_log stdout_name r)
          = (case level r of
               None \<Rightarrow> stdout_name
             | Some lv \<Rightarrow> if lv \<in> LOG_LEVELS then lv else stdout_name)"
    by (simp add: process_log_def Let_def)
qed

text \<open>
  The theorem at three lines: one with the level \<^verbatim>\<open>TRACE\<close>, logged at \<^verbatim>\<open>STDOUT\<close>,
  one with the level \<^verbatim>\<open>ERROR\<close>, logged at \<^verbatim>\<open>ERROR\<close>, and one outside the grammar,
  logged at \<^verbatim>\<open>STDOUT\<close>.
\<close>

theorem log_model_level_witness:
  "log_model clock0 ''[2024-01-01 00:00:00] [TRACE]: x''
     = Inr \<lparr>raw = ''[2024-01-01 00:00:00] [TRACE]: x'', time = clock0,
            level = Some ''TRACE'', message = Some ''x''\<rparr>
   \<and> list_all is_upper ''TRACE''
   \<and> fst (process_log ''STDOUT''
        \<lparr>raw = ''[2024-01-01 00:00:00] [TRACE]: x'', time = clock0,
         level = Some ''TRACE'', message = Some ''x''\<rparr>) = ''STDOUT''
   \<and> log_model clock0 ''[2024-01-01 00:00:00] [ERROR]: y''
     = Inr \<lparr>raw = ''[2024-01-01 00:00:00] [ERROR]: y'', time = clock0,
            level = Some ''ERROR'', message = Some ''y''\<rparr>
   \<and> fst (process_log ''STDOUT''
        \<lparr>raw = ''[2024-01-01 00:00:00] [ERROR]: y'', time = clock0,
         level = Some ''ERROR'', message = Some ''y''\<rparr>) = ''ERROR''
   \<and> log_model clock0 ''garbage output''
     = Inr \<lparr>raw = ''garbage output'', time = clock0, level = None, message = None\<rparr>
   \<and> fst (process_log ''STDOUT''
        \<lparr>raw = ''garbage output'', time = clock0, level = None, message = None\<rparr>) = ''STDOUT''"
proof -
  have h1: "log_model clock0 ''[2024-01-01 00:00:00] [TRACE]: x''
             = Inr \<lparr>raw = ''[2024-01-01 00:00:00] [TRACE]: x'', time = clock0,
                    level = Some ''TRACE'', message = Some ''x''\<rparr>"
    by (simp add: log_model_def grammar_defs time_defs clock0_def)
  have h2: "log_model clock0 ''[2024-01-01 00:00:00] [ERROR]: y''
             = Inr \<lparr>raw = ''[2024-01-01 00:00:00] [ERROR]: y'', time = clock0,
                    level = Some ''ERROR'', message = Some ''y''\<rparr>"
    by (simp add: log_model_def grammar_defs time_defs clock0_def)
  have h3: "log_model clock0 ''garbage output''
             = Inr \<lparr>raw = ''garbage output'', time = clock0, level = None, message = None\<rparr>"
    by (simp add: log_model_def grammar_defs)
  from log_model_level [OF h1, of "''STDOUT''"]
  have c1: "list_all is_upper ''TRACE''
     \<and> fst (process_log ''STDOUT''
        \<lparr>raw = ''[2024-01-01 00:00:00] [TRACE]: x'', time = clock0,
         level = Some ''TRACE'', message = Some ''x''\<rparr>) = ''STDOUT''"
    by (simp add: LOG_LEVELS_def)
  from log_model_level [OF h2, of "''STDOUT''"]
  have c2: "fst (process_log ''STDOUT''
        \<lparr>raw = ''[2024-01-01 00:00:00] [ERROR]: y'', time = clock0,
         level = Some ''ERROR'', message = Some ''y''\<rparr>) = ''ERROR''"
    by (simp add: LOG_LEVELS_def)
  from log_model_level [OF h3, of "''STDOUT''"]
  have c3: "fst (process_log ''STDOUT''
        \<lparr>raw = ''garbage output'', time = clock0, level = None, message = None\<rparr>) = ''STDOUT''"
    by simp
  from h1 h2 h3 c1 c2 c3 show ?thesis by blast
qed

text \<open>
  C9 as stated fails: the record of a line with the level \<^verbatim>\<open>TRACE\<close> has that level,
  which is none of the five.
\<close>

theorem log_model_level_counterexample:
  "log_model clock0 ''[2024-01-01 00:00:00] [TRACE]: x''
     = Inr \<lparr>raw = ''[2024-01-01 00:00:00] [TRACE]: x'', time = clock0,
            level = Some ''TRACE'', message = Some ''x''\<rparr>
   \<and> ''TRACE'' \<notin> LOG_LEVELS"
  by (simp add: log_model_def grammar_defs time_defs clock0_def LOG_LEVELS_def)

subsection \<open>The directory\<close>

text \<open>
  C2. For an account that is not in the directory the constructor raises, on reading
  \<^verbatim>\<open>self.account\<close> before it is assigned, and the directory is left as it was.
\<close>

theorem init_unregistered:
  "uin acct \<notin> dom REGISTERED
   \<Longrightarrow> init REGISTERED self acct kt st mr ri print_process_log running_loop
         = (Inl AttributeError, REGISTERED)"
  by (simp add: init_def getattr_account_def)

theorem init_unregistered_witness:
  "uin \<lparr>uin = 10001\<rparr> \<notin> dom (Map.empty :: registry)
   \<and> init Map.empty 1 \<lparr>uin = 10001\<rparr> 5 6 (- 1) 3 True True = (Inl AttributeError, Map.empty)"
proof -
  have h: "uin \<lparr>uin = 10001\<rparr> \<notin> dom (Map.empty :: registry)" by simp
  show ?thesis using h init_unregistered [OF h, of 1 5 6 "- 1" 3 True True] by simp
qed

text \<open>
  C7. With the account 10001 registered, a second construction for it raises
  \<^verbatim>\<open>ValueError\<close> and leaves the directory as it was. After the entry is removed the
  directory is empty, and the construction for 10001 raises \<^verbatim>\<open>AttributeError\<close> and
  registers nothing, where the claim has it succeed.
\<close>

theorem init_after_unregister:
  "init [10001 \<mapsto> 1] 2 \<lparr>uin = 10001\<rparr> 5 6 (- 1) 3 True True = (Inl ValueError, [10001 \<mapsto> 1])
   \<and> unregister 10001 [10001 \<mapsto> 1] = Map.empty
   \<and> init (unregister 10001 [10001 \<mapsto> 1]) 2 \<lparr>uin = 10001\<rparr> 5 6 (- 1) 3 True True
       = (Inl AttributeError, Map.empty)"
  by (simp add: init_def getattr_account_def unregister_def)

subsection \<open>Listeners\<close>

text \<open>
  C10. \<^verbatim>\<open>listen_log\<close> returns its argument and adds it to the set of listeners;
  registering the same listener a second time changes nothing, and two registrations on an
  empty set leave exactly one entry.
\<close>

theorem listen_log_idempotent:
  "fst (listen_log self c) = c
   \<and> log_listeners (snd (listen_log self c)) = insert c (log_listeners self)
   \<and> snd (listen_log (snd (listen_log self c)) c) = snd (listen_log self c)
   \<and> log_listeners (snd (listen_log (snd (listen_log (self\<lparr>log_listeners := {}\<rparr>) c)) c)) = {c}
   \<and> card (log_listeners (snd (listen_log (snd (listen_log (self\<lparr>log_listeners := {}\<rparr>) c)) c))) = 1"
  by (simp add: listen_log_def)

subsection \<open>The restart loop\<close>

lemmas run_defs = started_def start_def init_fields_def ready_run_def garbage_run_def
  stopped_run_def bad_date_run_def bad_date_env_def iteration_def
  GoCQProcess_daemon_thread_runner_def sleep_def sleep_limit_def
  emit_def stop_def strip_def is_space_def log_model_def clock0_def spawns_def Let_def

text \<open>
  Reading the lines and \<^verbatim>\<open>stop\<close> leave the restart policy and the restart counter
  alone, and so does a run of the worker, which ends with the flag cleared exactly when it
  was clear before or \<^verbatim>\<open>stop\<close> was called during the run.
\<close>

lemma read_lines_fields:
  "read_lines ls s = (r, s') \<Longrightarrow>
     max_restarts s' = max_restarts s \<and> restart_interval s' = restart_interval s
     \<and> restarted s' = restarted s \<and> daemon_thread_running s' = daemon_thread_running s
     \<and> kill_timeout s' = kill_timeout s \<and> process s' = process s"
proof (induction ls s arbitrary: r s' rule: read_lines.induct)
  case (1 self)
  then show ?case by simp
next
  case (2 now l rest self)
  show ?case
  proof (cases "l = []")
    case True
    with "2.prems" show ?thesis by simp
  next
    case False
    show ?thesis
    proof (cases "log_model now (strip l)")
      case (Inl e)
      with False "2.prems" show ?thesis by (auto simp: Let_def)
    next
      case (Inr lg)
      with False "2.prems" have
        "read_lines rest (emit [Schedule (log_listeners (self\<lparr>log_counter := log_counter self + 1\<rparr>)) lg]
           (self\<lparr>log_counter := log_counter self + 1\<rparr>)) = (r, s')"
        by (simp add: Let_def)
      from "2.IH" [OF False refl Inr this] show ?thesis by (simp add: emit_def)
    qed
  qed
qed

lemma stop_fields:
  "max_restarts (stop s) = max_restarts s \<and> restart_interval (stop s) = restart_interval s
   \<and> restarted (stop s) = restarted s \<and> \<not> daemon_thread_running (stop s)"
  by (simp add: stop_def emit_def Let_def split: option.splits)

lemma run_fields:
  assumes "GoCQProcess_daemon_thread_runner r s = (res, s')"
  shows "max_restarts s' = max_restarts s \<and> restart_interval s' = restart_interval s
     \<and> restarted s' = restarted s
     \<and> daemon_thread_running s' = (daemon_thread_running s \<and> \<not> stop_requested r)"
proof (cases "spawn r")
  case (Inl e)
  with assms stop_fields [of s] show ?thesis
    by (auto simp: GoCQProcess_daemon_thread_runner_def split: if_splits)
next
  case (Inr p)
  obtain x s2 where rl: "read_lines (stdout_lines r)
      (emit [Spawn p] (s\<lparr>process := Some \<lparr>popen_pid = p, returncode = None\<rparr>\<rparr>)) = (x, s2)"
    by (cases "read_lines (stdout_lines r)
      (emit [Spawn p] (s\<lparr>process := Some \<lparr>popen_pid = p, returncode = None\<rparr>\<rparr>))")
  from read_lines_fields [OF rl] have f: "max_restarts s2 = max_restarts s"
    "restart_interval s2 = restart_interval s" "restarted s2 = restarted s"
    "daemon_thread_running s2 = daemon_thread_running s"
    by (simp_all add: emit_def)
  from assms Inr rl f stop_fields [of s2] show ?thesis
    by (auto simp: GoCQProcess_daemon_thread_runner_def Let_def emit_def
        split: option.splits sum.splits if_splits)
qed

text \<open>
  With a restart interval that the sleep accepts, the body of the loop ends without an
  exception of its own, whatever the run did, and has counted the run.
\<close>

lemma iteration_fields:
  assumes "sleep (restart_interval self) = None"
  shows "\<exists>s. iteration r i self = Inr s \<and> restarted s = restarted self + 1
     \<and> max_restarts s = max_restarts self \<and> restart_interval s = restart_interval self
     \<and> daemon_thread_running s = (daemon_thread_running self \<and> \<not> stop_requested r)"
proof -
  obtain res s1 where run: "GoCQProcess_daemon_thread_runner r self = (res, s1)"
    by (cases "GoCQProcess_daemon_thread_runner r self")
  note f = run_fields [OF run]
  show ?thesis
    using assms f by (cases res) (auto simp: iteration_def run emit_def Let_def)
qed

text \<open>The two ways through the top of the loop.\<close>

lemma loop_step:
  assumes "daemon_thread_running self" and "max_restarts self < 0 \<or> int i < max_restarts self"
    and "iteration (env i) i self = Inr s"
  shows "daemon_thread_runner env i self = daemon_thread_runner env (Suc i) s"
  using assms by (subst daemon_thread_runner.simps) auto

lemma loop_stop:
  assumes "\<not> daemon_thread_running self \<or> (0 \<le> max_restarts self \<and> max_restarts self \<le> int i)"
  shows "daemon_thread_runner env i self = Some (Inr self)"
  using assms by (subst daemon_thread_runner.simps) auto

text \<open>
  With a bounded budget the loop ends, by induction on what is left of the budget: the
  counter is then within the budget, and has used it up unless the flag was cleared.
\<close>

lemma loop_terminates:
  assumes "0 \<le> max_restarts self" and "sleep (restart_interval self) = None"
    and "restarted self = i"
  shows "\<exists>s'. daemon_thread_runner env i self = Some (Inr s') \<and> i \<le> restarted s'
     \<and> int (restarted s') \<le> max (int i) (max_restarts self)
     \<and> (daemon_thread_running s' \<longrightarrow> max_restarts self \<le> int (restarted s'))"
  using assms
proof (induction "nat (max_restarts self) - i" arbitrary: self i)
  case 0
  then have "max_restarts self \<le> int i" by simp
  with "0.prems" have "daemon_thread_runner env i self = Some (Inr self)"
    by (intro loop_stop) simp
  with "0.prems" \<open>max_restarts self \<le> int i\<close> show ?case by simp
next
  case (Suc n)
  then have lt: "int i < max_restarts self" by linarith
  show ?case
  proof (cases "daemon_thread_running self")
    case False
    then have "daemon_thread_runner env i self = Some (Inr self)"
      by (intro loop_stop) simp
    with Suc.prems False show ?thesis by simp
  next
    case True
    from iteration_fields [OF Suc.prems(2), of "env i" i] obtain s where
      s: "iteration (env i) i self = Inr s" "restarted s = restarted self + 1"
         "max_restarts s = max_restarts self" "restart_interval s = restart_interval self"
      by blast
    have step: "daemon_thread_runner env i self = daemon_thread_runner env (Suc i) s"
      using True lt s(1) by (intro loop_step [where env = env and i = i]) simp_all
    have "n = nat (max_restarts s) - Suc i" using Suc.hyps(2) s(3) by simp
    from Suc.hyps(1) [OF this] s Suc.prems obtain s' where
      "daemon_thread_runner env (Suc i) s = Some (Inr s')" "Suc i \<le> restarted s'"
      "int (restarted s') \<le> max (int (Suc i)) (max_restarts self)"
      "daemon_thread_running s' \<longrightarrow> max_restarts self \<le> int (restarted s')"
      by auto
    with step lt show ?thesis by auto
  qed
qed

text \<open>
  C8, as amended. Whatever exception \<open>e\<close> a run of the worker raises in an iteration
  the loop has entered (the flag is set, the budget is not used up), and provided the sleep
  accepts the restart interval (it is not negative and not beyond the clock's range), the
  iteration ends normally. After the events of the run the trace has exactly the logging
  of the exception, the warning with the exit code 0, the loop variable and the budget,
  and the sleep; the counter is incremented; nothing else of the object changes; and the
  loop goes on with the guards of the next iteration.
\<close>

theorem run_exception_caught:
  assumes "GoCQProcess_daemon_thread_runner (env i) self = (Inl e, s1)"
    and "daemon_thread_running self"
    and "max_restarts self < 0 \<or> int i < max_restarts self"
    and "sleep (restart_interval self) = None"
  shows "\<exists>s'. iteration (env i) i self = Inr s'
           \<and> trace s' = trace s1 @ [Logger_exception e, Logger_warning 0 i (max_restarts self),
                                     Sleep (restart_interval self)]
           \<and> restarted s' = restarted self + 1
           \<and> s'\<lparr>trace := trace s1, restarted := restarted s1\<rparr> = s1
           \<and> daemon_thread_runner env i self = daemon_thread_runner env (Suc i) s'"
proof -
  note f = run_fields [OF assms(1)]
  define s' where "s' = emit [Sleep (restart_interval self)]
                   ((emit [Logger_exception e, Logger_warning 0 i (max_restarts self)] s1)
                    \<lparr>restarted := restarted self + 1\<rparr>)"
  have it: "iteration (env i) i self = Inr s'"
    using assms(4) f by (simp add: iteration_def assms(1) emit_def Let_def s'_def)
  have "trace s' = trace s1 @ [Logger_exception e, Logger_warning 0 i (max_restarts self),
                                     Sleep (restart_interval self)]"
    and "restarted s' = restarted self + 1"
    and "s'\<lparr>trace := trace s1, restarted := restarted s1\<rparr> = s1"
    by (simp_all add: s'_def emit_def)
  with loop_step [where env = env and i = i, OF assms(2) assms(3) it] it show ?thesis by blast
qed

text \<open>
  The theorem at a worker whose only line has the month 13, with a budget of 1 and the
  interval 0: the validation error of the record is the exception.
\<close>

theorem run_exception_caught_witness:
  "fst (GoCQProcess_daemon_thread_runner bad_date_run (started 1 0)) = Inl ValidationError
   \<and> daemon_thread_running (started 1 0)
   \<and> sleep (restart_interval (started 1 0)) = None
   \<and> map_sum id (\<lambda>s. (trace s, restarted s, log_counter s, process s))
        (iteration bad_date_run 0 (started 1 0))
       = Inr ([Spawn 4321, Logger_exception ValidationError, Logger_warning 0 0 1, Sleep 0],
              1, 1, Some \<lparr>popen_pid = 4321, returncode = None\<rparr>)
   \<and> daemon_thread_runner (\<lambda>i. bad_date_run) 0 (started 1 0)
       = daemon_thread_runner (\<lambda>i. bad_date_run) 1
           (projr (iteration bad_date_run 0 (started 1 0)))"
proof -
  define s1 where "s1 = snd (GoCQProcess_daemon_thread_runner bad_date_run (started 1 0))"
  have r: "fst (GoCQProcess_daemon_thread_runner bad_date_run (started 1 0)) = Inl ValidationError"
    by (simp add: run_defs grammar_defs time_defs)
  then have h: "GoCQProcess_daemon_thread_runner ((\<lambda>i. bad_date_run) 0) (started 1 0)
                  = (Inl ValidationError, s1)"
    by (simp add: s1_def prod_eq_iff)
  have a: "daemon_thread_running (started 1 0)" by (simp add: run_defs)
  have b: "max_restarts (started 1 0) < 0 \<or> int 0 < max_restarts (started 1 0)"
    by (simp add: run_defs)
  have c: "sleep (restart_interval (started 1 0)) = None" by (simp add: run_defs)
  have s1: "trace s1 = [Spawn 4321] \<and> log_counter s1 = 1
            \<and> process s1 = Some \<lparr>popen_pid = 4321, returncode = None\<rparr>"
    by (simp add: s1_def run_defs grammar_defs time_defs)
  have m: "max_restarts (started 1 0) = 1" "restart_interval (started 1 0) = 0"
    "restarted (started 1 0) = 0"
    by (simp_all add: run_defs)
  from run_exception_caught [of "\<lambda>i. bad_date_run" 0, OF h a b c] obtain s' where
    s': "iteration bad_date_run 0 (started 1 0) = Inr s'"
      "trace s' = trace s1 @ [Logger_exception ValidationError,
          Logger_warning 0 0 (max_restarts (started 1 0)), Sleep (restart_interval (started 1 0))]"
      "restarted s' = restarted (started 1 0) + 1"
      "s'\<lparr>trace := trace s1, restarted := restarted s1\<rparr> = s1"
      "daemon_thread_runner (\<lambda>i. bad_date_run) 0 (started 1 0)
         = daemon_thread_runner (\<lambda>i. bad_date_run) (Suc 0) s'"
    by auto
  from s'(4) have "log_counter s' = log_counter s1" "process s' = process s1"
    by (metis GoCQProcess.select_convs GoCQProcess.surjective GoCQProcess.update_convs)+
  with s' s1 m r a c show ?thesis by simp
qed

text \<open>
  C8 as stated fails: with the restart interval \<open>- 1\<close> the exception of the run is
  caught, but the sleep of line 117, outside the \<^verbatim>\<open>try\<close>, raises \<^verbatim>\<open>ValueError\<close>
  and ends the thread before the next iteration; with an interval of \<open>10 ^ 10\<close> seconds it
  raises \<^verbatim>\<open>OverflowError\<close>.
\<close>

theorem run_exception_sleep_counterexample:
  "fst (GoCQProcess_daemon_thread_runner bad_date_run (started 2 (- 1))) = Inl ValidationError
   \<and> daemon_thread_running (started 2 (- 1))
   \<and> daemon_thread_runner (\<lambda>i. bad_date_run) 0 (started 2 (- 1)) = Some (Inl ValueError)
   \<and> daemon_thread_runner (\<lambda>i. bad_date_run) 0 (started 2 (10 ^ 10)) = Some (Inl OverflowError)"
  by (simp add: daemon_thread_runner.simps run_defs grammar_defs time_defs)


text \<open>
  What the loop guarantees of the counter for a bounded budget and an interval the sleep
  accepts, with the counter equal to the loop variable: an iteration entered with the flag
  set and the counter below the budget, during which \<^verbatim>\<open>stop\<close> is not called, increments
  the counter by one and the loop goes on; a guard that finds the flag cleared or the
  budget used up ends the loop with the object unchanged; and the loop always ends, with
  the counter within the budget and equal to it unless the flag was cleared.
\<close>

lemma restart_budget:
  assumes "0 \<le> max_restarts self" and "sleep (restart_interval self) = None"
    and "restarted self = i"
  shows "(daemon_thread_running self \<and> int i < max_restarts self \<and> \<not> stop_requested (env i) \<longrightarrow>
            (\<exists>s. iteration (env i) i self = Inr s \<and> restarted s = restarted self + 1
                 \<and> daemon_thread_running s
                 \<and> daemon_thread_runner env i self = daemon_thread_runner env (Suc i) s))
         \<and> (\<not> daemon_thread_running self \<longrightarrow> daemon_thread_runner env i self = Some (Inr self))
         \<and> (max_restarts self \<le> int i \<longrightarrow> daemon_thread_runner env i self = Some (Inr self))
         \<and> (\<exists>s'. daemon_thread_runner env i self = Some (Inr s') \<and> i \<le> restarted s'
                 \<and> int (restarted s') \<le> max (int i) (max_restarts self)
                 \<and> (daemon_thread_running s' \<longrightarrow> max_restarts self \<le> int (restarted s')))"
proof (intro conjI impI)
  assume h: "daemon_thread_running self \<and> int i < max_restarts self \<and> \<not> stop_requested (env i)"
  from iteration_fields [OF assms(2), of "env i" i] obtain s where
    s: "iteration (env i) i self = Inr s" "restarted s = restarted self + 1"
       "daemon_thread_running s = (daemon_thread_running self \<and> \<not> stop_requested (env i))"
    by blast
  have "daemon_thread_runner env i self = daemon_thread_runner env (Suc i) s"
    using h s(1) by (intro loop_step [where env = env and i = i]) simp_all
  with s h show "\<exists>s. iteration (env i) i self = Inr s \<and> restarted s = restarted self + 1
                 \<and> daemon_thread_running s
                 \<and> daemon_thread_runner env i self = daemon_thread_runner env (Suc i) s"
    by blast
next
  assume "\<not> daemon_thread_running self"
  then show "daemon_thread_runner env i self = Some (Inr self)"
    by (intro loop_stop) simp
next
  assume "max_restarts self \<le> int i"
  with assms(1) show "daemon_thread_runner env i self = Some (Inr self)"
    by (intro loop_stop) simp
next
  show "\<exists>s'. daemon_thread_runner env i self = Some (Inr s') \<and> i \<le> restarted s'
                 \<and> int (restarted s') \<le> max (int i) (max_restarts self)
                 \<and> (daemon_thread_running s' \<longrightarrow> max_restarts self \<le> int (restarted s'))"
    using assms by (rule loop_terminates)
qed

text \<open>
  C3. With a budget of 5 and \<^verbatim>\<open>stop\<close> called during the first run the worker exits
  because it was told to, and there is no other run. All the same the loop logs the
  warning that it is retrying to restart, increments the counter from 0 to 1 and sleeps,
  and only then finds the flag cleared; the claim has the counter unchanged by a planned
  exit.
\<close>

theorem restart_planned_exit:
  "stop_requested stopped_run \<and> restarted (started 5 0) = 0
   \<and> map_option (map_sum id (\<lambda>s. (trace s, restarted s, daemon_thread_running s, spawns s)))
        (daemon_thread_runner (\<lambda>i. stopped_run) 0 (started 5 0))
     = Some (Inr ([Spawn 4321,
                   Schedule {Process_log}
                     \<lparr>raw = ''garbage output'', time = clock0, level = None, message = None\<rparr>,
                   Terminate 4321, Terminate 4321, Wait 4321 5,
                   Logger_warning 1 0 5, Sleep 0],
                  1, False, 1))"
  by (simp add: daemon_thread_runner.simps run_defs grammar_defs)

text \<open>
  C5. The construction of the record raises on lines of the grammar whose time stamp is
  no date or no time of day: the month 13, the 29th of February 2023, the hour 24. On a
  line of the grammar with a real time stamp the record has the three groups, the time
  read from the line; a line with a letter in the time stamp does not match and gives the
  raw record, like the empty line. In the loop, with a budget of 2 and a worker that
  prints the line with the month 13, the exception leaves the read loop: the child is
  neither terminated nor waited for, its return code stays absent, and a second child is
  spawned beside it.
\<close>

theorem log_model_bad_date:
  "log_model clock0 ''[2024-13-01 00:00:00] [INFO]: x'' = Inl ValidationError
   \<and> log_model clock0 ''[2023-02-29 00:00:00] [INFO]: x'' = Inl ValidationError
   \<and> log_model clock0 ''[2024-01-01 24:00:00] [INFO]: x'' = Inl ValidationError
   \<and> log_model clock0 ''[2023-02-28 23:59:58] [INFO]: ready''
       = Inr \<lparr>raw = ''[2023-02-28 23:59:58] [INFO]: ready'',
              time = \<lparr>year = 2023, month = 2, day = 28, hour = 23, minute = 59, second = 58\<rparr>,
              level = Some ''INFO'', message = Some ''ready''\<rparr>
   \<and> log_model clock0 ''[2024-01-0x 00:00:00] [INFO]: y''
       = Inr \<lparr>raw = ''[2024-01-0x 00:00:00] [INFO]: y'', time = clock0,
              level = None, message = None\<rparr>
   \<and> log_model clock0 [] = Inr \<lparr>raw = [], time = clock0, level = None, message = None\<rparr>
   \<and> map_option (map_sum id (\<lambda>s. (trace s, process s, log_counter s, restarted s)))
        (daemon_thread_runner bad_date_env 0 (started 2 0))
     = Some (Inr ([Spawn 4321, Logger_exception ValidationError, Logger_warning 0 0 2, Sleep 0,
                   Spawn 4322, Logger_exception ValidationError, Logger_warning 0 1 2, Sleep 0],
                  Some \<lparr>popen_pid = 4322, returncode = None\<rparr>, 2, 2))"
  by (simp add: daemon_thread_runner.simps run_defs grammar_defs time_defs)

subsection \<open>The scenarios of the restart budget and the status\<close>

text \<open>
  C1. With \<open>max_restarts = 0\<close> the second guard ends the loop before the first run: the
  worker is never spawned, the log counter stays 0 and there is no handle, so the status
  raises \<^verbatim>\<open>RuntimeError\<close>, where the claim has one spawn, a log counter of 1 and a
  stopped status with the exit code 0.
\<close>

theorem restart_loop_zero_budget:
  "daemon_thread_runner (\<lambda>i. ready_run) 0 (started 0 3) = Some (Inr (started 0 3))
   \<and> spawns (started 0 3) = 0 \<and> restarted (started 0 3) = 0 \<and> log_counter (started 0 3) = 0
   \<and> process (started 0 3) = None
   \<and> GoCQProcess_status table (started 0 3) = Inl RuntimeError"
  by (simp add: daemon_thread_runner.simps GoCQProcess_status_def started_def start_def
      init_fields_def spawns_def)

text \<open>
  C4. With \<open>max_restarts = 2\<close>, the interval 0 and a worker that prints one line outside
  the grammar and exits with code 1, the loop spawns the worker twice, not three times;
  the counter is 2 at the end.
\<close>

theorem restart_loop_two_spawns:
  "map_option (map_sum id (\<lambda>s. (spawns s, restarted s, log_counter s)))
     (daemon_thread_runner (\<lambda>i. garbage_run) 0 (started 2 0)) = Some (Inr (2, 2, 2))"
  by (simp add: daemon_thread_runner.simps run_defs grammar_defs)

text \<open>What the status returns with and without a handle, a return code and a row of the table.\<close>

lemma status_not_started: "process self = None \<Longrightarrow> GoCQProcess_status table self = Inl RuntimeError"
  by (simp add: GoCQProcess_status_def)

lemma status_no_row:
  "process self = Some h \<Longrightarrow> table (popen_pid h) = None
   \<Longrightarrow> GoCQProcess_status table self = Inl NoSuchProcess"
  by (simp add: GoCQProcess_status_def)

lemma status_running:
  "process self = Some h \<Longrightarrow> table (popen_pid h) = Some ps \<Longrightarrow> returncode h = None
   \<Longrightarrow> \<exists>info. GoCQProcess_status table self = Inr (Running info) \<and> pid info = popen_pid h
        \<and> total_logs info = log_counter self \<and> restarts info = restarted self"
  by (simp add: GoCQProcess_status_def)

lemma status_stopped:
  "process self = Some h \<Longrightarrow> table (popen_pid h) = Some ps \<Longrightarrow> returncode h = Some c
   \<Longrightarrow> \<exists>info. GoCQProcess_status table self = Inr (Stopped info) \<and> code info = c
        \<and> total_logs info = log_counter self \<and> restarts info = restarted self"
  by (simp add: GoCQProcess_status_def)

text \<open>
  C6. After a worker that printed one line and exited with code 0 (budget 1), the handle
  has the return code 0, which \<^verbatim>\<open>wait\<close> collected; the child is reaped then and the
  process table has no row for its pid. The status raises \<^verbatim>\<open>NoSuchProcess\<close>, from
  \<^verbatim>\<open>psutil.Process\<close> at line 180, where the claim has it return the stopped snapshot.
\<close>

theorem status_after_exit:
  "map_option (map_sum id (\<lambda>s. (process s, GoCQProcess_status Map.empty s)))
     (daemon_thread_runner (\<lambda>i. ready_run) 0 (started 1 0))
   = Some (Inr (Some \<lparr>popen_pid = 4321, returncode = Some 0\<rparr>, Inl NoSuchProcess))"
  by (simp add: daemon_thread_runner.simps GoCQProcess_status_def run_defs grammar_defs
      time_defs)

end
